theory Spec2Isabelle
  imports Main
begin

section \<open>Data model (src/types, TodoContext.tsx)\<close>

text \<open>
  A \<^verbatim>\<open>Date\<close> is its \<^verbatim>\<open>getTime()\<close> value: milliseconds since the epoch, an integer.
  A day key is the string \<^verbatim>\<open>format(d, 'yyyy-MM-dd')\<close> of a day in the years 0000 to 9999;
  it is represented by the number of that calendar day (days since 1970-01-01), so that
  the order of the numbers is the order in which \<^verbatim>\<open>Array.prototype.sort\<close> puts the
  ten-character keys.
\<close>

type_synonym instant = int
type_synonym dayKey = int

datatype Priority = Low | Medium | High

record Task =
  id_task :: string
  title :: string
  description :: "string option"
  completed :: bool
  priority :: Priority
  dueDate :: "instant option"
  createdAt :: instant
  updatedAt :: instant

text \<open>
  \<^verbatim>\<open>Omit<Task, 'id' | 'createdAt' | 'updatedAt'>\<close>, the argument of \<^verbatim>\<open>addTask\<close>.
\<close>

record TaskData =
  td_title :: string
  td_description :: "string option"
  td_completed :: bool
  td_priority :: Priority
  td_dueDate :: "instant option"

text \<open>
  \<^verbatim>\<open>Partial<Task>\<close>: every key may be absent (\<open>None\<close>). The keys of the optional fields
  \<^verbatim>\<open>description\<close> and \<^verbatim>\<open>dueDate\<close> may also be present with the value \<^verbatim>\<open>undefined\<close>
  (\<open>Some None\<close>), which the object spread copies like any other value.
\<close>

record TaskUpdates =
  u_id :: "string option"
  u_title :: "string option"
  u_description :: "string option option"
  u_completed :: "bool option"
  u_priority :: "Priority option"
  u_dueDate :: "instant option option"
  u_createdAt :: "instant option"
  u_updatedAt :: "instant option"

text \<open>
  The notification settings as the object is at run time: the reducer also receives it
  from \<^verbatim>\<open>JSON.parse\<close> of the persisted settings, so a field may be missing.
\<close>

record NotificationSettings =
  enabled :: "bool option"
  soundEnabled :: "bool option"
  reminderTime :: "int option"

datatype Theme = Light | Dark | System

record AppSettings =
  notifications :: NotificationSettings
  theme :: Theme
  language :: string

text \<open>\<^verbatim>\<open>Partial<AppSettings>\<close>: the partial is shallow, a key is absent or holds a whole value.\<close>

record SettingsUpdates =
  su_notifications :: "NotificationSettings option"
  su_theme :: "Theme option"
  su_language :: "string option"

record UserStats =
  totalTasks :: nat
  completedTasks :: nat
  currentStreak :: nat
  longestStreak :: nat
  dailyCompletion :: "dayKey \<rightharpoonup> nat"
  weeklyCompletion :: "string \<rightharpoonup> nat"

record StreakInfo =
  current :: nat
  longest :: nat
  lastCompletionDate :: "instant option"
  daysWithAllTasksCompleted :: "dayKey list"

record TodoState =
  tasks :: "Task list"
  stats :: UserStats
  settings :: AppSettings
  streak :: StreakInfo
  isLoading :: bool

datatype TodoAction =
    SET_TASKS "Task list"
  | ADD_TASK Task
  | UPDATE_TASK string TaskUpdates
  | DELETE_TASK string
  | TOGGLE_TASK string
  | UPDATE_SETTINGS SettingsUpdates
  | UPDATE_STATS UserStats
  | UPDATE_STREAK StreakInfo
  | SET_LOADING bool

definition initialSettings :: AppSettings where
  "initialSettings =
     \<lparr>notifications = \<lparr>enabled = Some True, soundEnabled = Some True, reminderTime = Some 15\<rparr>,
      theme = System, language = ''en''\<rparr>"

definition initialStats :: UserStats where
  "initialStats =
     \<lparr>totalTasks = 0, completedTasks = 0, currentStreak = 0, longestStreak = 0,
      dailyCompletion = Map.empty, weeklyCompletion = Map.empty\<rparr>"

definition initialStreak :: StreakInfo where
  "initialStreak =
     \<lparr>current = 0, longest = 0, lastCompletionDate = None, daysWithAllTasksCompleted = []\<rparr>"

definition initialState :: TodoState where
  "initialState =
     \<lparr>tasks = [], stats = initialStats, settings = initialSettings, streak = initialStreak,
      isLoading = False\<rparr>"

section \<open>The reducer\<close>

text \<open>
  \<^verbatim>\<open>{ ...task, ...updates, updatedAt: new Date() }\<close>: every key present in the updates
  overwrites the task's, \<^verbatim>\<open>id\<close> included, then \<^verbatim>\<open>updatedAt\<close> is set to the clock reading.
\<close>

definition applyUpdates :: "instant \<Rightarrow> TaskUpdates \<Rightarrow> Task \<Rightarrow> Task" where
  "applyUpdates now u task =
     \<lparr>id_task = (case u_id u of None \<Rightarrow> id_task task | Some v \<Rightarrow> v),
      title = (case u_title u of None \<Rightarrow> title task | Some v \<Rightarrow> v),
      description = (case u_description u of None \<Rightarrow> description task | Some v \<Rightarrow> v),
      completed = (case u_completed u of None \<Rightarrow> completed task | Some v \<Rightarrow> v),
      priority = (case u_priority u of None \<Rightarrow> priority task | Some v \<Rightarrow> v),
      dueDate = (case u_dueDate u of None \<Rightarrow> dueDate task | Some v \<Rightarrow> v),
      createdAt = (case u_createdAt u of None \<Rightarrow> createdAt task | Some v \<Rightarrow> v),
      updatedAt = now\<rparr>"

text \<open>\<^verbatim>\<open>{ ...state.settings, ...action.payload }\<close>: a merge of the top-level keys only.\<close>

definition mergeSettings :: "AppSettings \<Rightarrow> SettingsUpdates \<Rightarrow> AppSettings" where
  "mergeSettings s p =
     \<lparr>notifications = (case su_notifications p of None \<Rightarrow> notifications s | Some v \<Rightarrow> v),
      theme = (case su_theme p of None \<Rightarrow> theme s | Some v \<Rightarrow> v),
      language = (case su_language p of None \<Rightarrow> language s | Some v \<Rightarrow> v)\<rparr>"

text \<open>
  \<^verbatim>\<open>todoReducer(state, action)\<close>. The first argument is the value \<^verbatim>\<open>new Date()\<close> returns
  while the action is reduced.
\<close>

fun todoReducer :: "instant \<Rightarrow> TodoState \<Rightarrow> TodoAction \<Rightarrow> TodoState" where
  "todoReducer now state (SET_TASKS payload) = state\<lparr>tasks := payload\<rparr>"
| "todoReducer now state (ADD_TASK payload) = state\<lparr>tasks := tasks state @ [payload]\<rparr>"
| "todoReducer now state (UPDATE_TASK ident updates) =
     state\<lparr>tasks := map (\<lambda>task. if id_task task = ident then applyUpdates now updates task
                                else task) (tasks state)\<rparr>"
| "todoReducer now state (DELETE_TASK payload) =
     state\<lparr>tasks := filter (\<lambda>task. id_task task \<noteq> payload) (tasks state)\<rparr>"
| "todoReducer now state (TOGGLE_TASK payload) =
     state\<lparr>tasks := map (\<lambda>task. if id_task task = payload
                                then task\<lparr>completed := \<not> completed task, updatedAt := now\<rparr>
                                else task) (tasks state)\<rparr>"
| "todoReducer now state (UPDATE_SETTINGS payload) =
     state\<lparr>settings := mergeSettings (settings state) payload\<rparr>"
| "todoReducer now state (UPDATE_STATS payload) = state\<lparr>stats := payload\<rparr>"
| "todoReducer now state (UPDATE_STREAK payload) = state\<lparr>streak := payload\<rparr>"
| "todoReducer now state (SET_LOADING payload) = state\<lparr>isLoading := payload\<rparr>"

section \<open>The commands of the provider\<close>

text \<open>
  Each function of the provider dispatches one action, so it is the reducer step of that
  action. The effects that React runs after the step, because the task list is a new
  array, are \<open>runEffects\<close> below. \<^verbatim>\<open>addTask\<close> reads \<^verbatim>\<open>uuidv4()\<close> and the clock twice; the
  three readings are arguments.
\<close>

definition addTask :: "string \<Rightarrow> instant \<Rightarrow> instant \<Rightarrow> TaskData \<Rightarrow> TodoState \<Rightarrow> TodoState" where
  "addTask uuid nowCreated nowUpdated taskData state =
     todoReducer nowUpdated state
       (ADD_TASK \<lparr>id_task = uuid, title = td_title taskData,
                  description = td_description taskData, completed = td_completed taskData,
                  priority = td_priority taskData, dueDate = td_dueDate taskData,
                  createdAt = nowCreated, updatedAt = nowUpdated\<rparr>)"

definition updateTask :: "instant \<Rightarrow> string \<Rightarrow> TaskUpdates \<Rightarrow> TodoState \<Rightarrow> TodoState" where
  "updateTask now ident updates state = todoReducer now state (UPDATE_TASK ident updates)"

definition deleteTask :: "instant \<Rightarrow> string \<Rightarrow> TodoState \<Rightarrow> TodoState" where
  "deleteTask now ident state = todoReducer now state (DELETE_TASK ident)"

definition toggleTask :: "instant \<Rightarrow> string \<Rightarrow> TodoState \<Rightarrow> TodoState" where
  "toggleTask now ident state = todoReducer now state (TOGGLE_TASK ident)"

definition updateSettings :: "instant \<Rightarrow> SettingsUpdates \<Rightarrow> TodoState \<Rightarrow> TodoState" where
  "updateSettings now payload state = todoReducer now state (UPDATE_SETTINGS payload)"

section \<open>Dates (date-fns and the host's Date)\<close>

text \<open>
  The host's time zone is a fixed offset \<open>tz\<close>, in milliseconds east of UTC (no
  daylight-saving change). \<open>localDay tz t\<close> is the calendar day the instant \<open>t\<close> falls
  on in that zone.
\<close>

definition msPerDay :: int where
  "msPerDay = 1000 * 60 * 60 * 24"

definition localDay :: "int \<Rightarrow> instant \<Rightarrow> dayKey" where
  "localDay tz t = (t + tz) div msPerDay"

text \<open>\<^verbatim>\<open>format(d, 'yyyy-MM-dd')\<close>: the key of the local calendar day.\<close>

definition formatDay :: "int \<Rightarrow> instant \<Rightarrow> dayKey" where
  "formatDay tz t = localDay tz t"

text \<open>\<^verbatim>\<open>startOfDay(d)\<close>: local midnight of the day of \<open>d\<close>.\<close>

definition startOfDay :: "int \<Rightarrow> instant \<Rightarrow> instant" where
  "startOfDay tz t = localDay tz t * msPerDay - tz"

text \<open>\<^verbatim>\<open>isSameDay(a, b)\<close>: both instants fall on one local calendar day.\<close>

definition isSameDay :: "int \<Rightarrow> instant \<Rightarrow> instant \<Rightarrow> bool" where
  "isSameDay tz a b = (localDay tz a = localDay tz b)"

text \<open>
  \<^verbatim>\<open>new Date('yyyy-MM-dd')\<close>: the host reads a date-only string as midnight UTC of that
  day, whatever the local zone is.
\<close>

definition dateOfKey :: "dayKey \<Rightarrow> instant" where
  "dateOfKey k = k * msPerDay"

text \<open>\<^verbatim>\<open>d.setDate(d.getDate() - n)\<close>: the same local time \<open>n\<close> calendar days earlier.\<close>

definition minusDays :: "instant \<Rightarrow> nat \<Rightarrow> instant" where
  "minusDays t n = t - int n * msPerDay"

text \<open>
  \<^verbatim>\<open>addMinutes(d, n)\<close> and \<^verbatim>\<open>isBefore(a, b)\<close>. An amount that is \<^verbatim>\<open>undefined\<close> negates to
  \<^verbatim>\<open>NaN\<close> and gives an invalid date (\<open>None\<close>), and nothing is before an invalid date.
\<close>

definition addMinutes :: "instant \<Rightarrow> int option \<Rightarrow> instant option" where
  "addMinutes d amount = (case amount of None \<Rightarrow> None | Some n \<Rightarrow> Some (d + n * 60000))"

definition isBefore :: "instant \<Rightarrow> instant option \<Rightarrow> bool" where
  "isBefore a b = (case b of None \<Rightarrow> False | Some t \<Rightarrow> a < t)"

section \<open>The streak effect (calculateStreak)\<close>

text \<open>
  The \<^verbatim>\<open>for\<close> loop over \<^verbatim>\<open>sortedDays\<close> from its last index down to 0: the list argument is
  the part of the reversed array still to visit, \<open>c\<close> is \<^verbatim>\<open>currentStreak\<close>.
\<close>

fun countBack :: "int \<Rightarrow> instant \<Rightarrow> dayKey list \<Rightarrow> nat \<Rightarrow> nat" where
  "countBack tz today [] c = c"
| "countBack tz today (k # ks) c =
     (if isSameDay tz (dateOfKey k) (minusDays today c)
      then countBack tz today ks (Suc c) else c)"

definition todayTasks :: "int \<Rightarrow> instant \<Rightarrow> Task list \<Rightarrow> Task list" where
  "todayTasks tz today ts =
     filter (\<lambda>task. case dueDate task of None \<Rightarrow> False | Some d \<Rightarrow> isSameDay tz d today) ts"

definition allTodayTasksCompleted :: "int \<Rightarrow> instant \<Rightarrow> Task list \<Rightarrow> bool" where
  "allTodayTasksCompleted tz today ts =
     (length (todayTasks tz today ts) > 0 \<and> list_all completed (todayTasks tz today ts))"

definition newDaysWithAllCompleted :: "bool \<Rightarrow> dayKey \<Rightarrow> dayKey list \<Rightarrow> dayKey list" where
  "newDaysWithAllCompleted allDone todayKey days =
     (if allDone \<and> todayKey \<notin> set days then days @ [todayKey]
      else if \<not> allDone \<and> todayKey \<in> set days then filter (\<lambda>day. day \<noteq> todayKey) days
      else days)"

definition currentStreakOf :: "int \<Rightarrow> instant \<Rightarrow> dayKey list \<Rightarrow> nat" where
  "currentStreakOf tz today sortedDays =
     (if length sortedDays > 0 then
        (let lastDay = dateOfKey (last sortedDays);
             daysDiff = (today - lastDay) div msPerDay
         in if daysDiff \<le> 1 then countBack tz today (rev sortedDays) 0 else 0)
      else 0)"

text \<open>
  \<^verbatim>\<open>calculateStreak\<close>, as the function from the zone, the clock reading, the task list and
  the previous streak record to the payload of \<^verbatim>\<open>UPDATE_STREAK\<close>. The array is sorted in
  place, so the sorted array is also the one stored.
\<close>

definition calculateStreak :: "int \<Rightarrow> instant \<Rightarrow> Task list \<Rightarrow> StreakInfo \<Rightarrow> StreakInfo" where
  "calculateStreak tz now ts prev =
     (let today = startOfDay tz now;
          todayKey = formatDay tz today;
          allDone = allTodayTasksCompleted tz today ts;
          sortedDays = sort (newDaysWithAllCompleted allDone todayKey
                               (daysWithAllTasksCompleted prev));
          currentStreak = currentStreakOf tz today sortedDays;
          longestStreak = max (longest prev) currentStreak
      in \<lparr>current = currentStreak, longest = longestStreak,
          lastCompletionDate = (if allDone then Some today else lastCompletionDate prev),
          daysWithAllTasksCompleted = sortedDays\<rparr>)"

section \<open>The statistics effect (calculateStats)\<close>

text \<open>The body of the \<^verbatim>\<open>forEach\<close> callback, on the \<^verbatim>\<open>dailyCompletion\<close> object.\<close>

definition countTask :: "int \<Rightarrow> Task \<Rightarrow> (dayKey \<rightharpoonup> nat) \<Rightarrow> (dayKey \<rightharpoonup> nat)" where
  "countTask tz task daily =
     (let dateKey = formatDay tz (createdAt task);
          daily1 = (case daily dateKey of
                      None \<Rightarrow> daily(dateKey \<mapsto> 0)
                    | Some n \<Rightarrow> if n = 0 then daily(dateKey \<mapsto> 0) else daily)
      in if completed task
         then (case daily1 dateKey of None \<Rightarrow> daily1 | Some n \<Rightarrow> daily1(dateKey \<mapsto> n + 1))
         else daily1)"

definition calculateStats :: "int \<Rightarrow> TodoState \<Rightarrow> UserStats" where
  "calculateStats tz state =
     \<lparr>totalTasks = length (tasks state),
      completedTasks = length (filter completed (tasks state)),
      currentStreak = current (streak state),
      longestStreak = longest (streak state),
      dailyCompletion = fold (countTask tz) (tasks state) Map.empty,
      weeklyCompletion = Map.empty\<rparr>"

section \<open>The effects after a change of the task list\<close>

text \<open>
  Every reducer step on the task list stores a new array (\<^verbatim>\<open>filter\<close> and \<^verbatim>\<open>map\<close> return one
  also when nothing changes), so the effects with \<^verbatim>\<open>state.tasks\<close> among their dependencies
  run after it, in the order of their declaration: \<^verbatim>\<open>calculateStats\<close> and then
  \<^verbatim>\<open>calculateStreak\<close>, both reading the state of that render. The new streak record is a
  dependency of \<^verbatim>\<open>calculateStats\<close>, which runs once more on the state that holds it; after
  that no dependency changes. \<open>now\<close> is the clock reading of \<^verbatim>\<open>calculateStreak\<close>.
\<close>

definition runEffects :: "int \<Rightarrow> instant \<Rightarrow> TodoState \<Rightarrow> TodoState" where
  "runEffects tz now state =
     (let s1 = todoReducer now state (UPDATE_STATS (calculateStats tz state));
          s2 = todoReducer now s1
                 (UPDATE_STREAK (calculateStreak tz now (tasks state) (streak state)));
          s3 = todoReducer now s2 (UPDATE_STATS (calculateStats tz s2))
      in s3)"

text \<open>
  The store's delete command as a caller sees it: the dispatch of \<^verbatim>\<open>deleteTask\<close> and the
  effects that follow it.
\<close>

definition deleteCommand :: "int \<Rightarrow> instant \<Rightarrow> string \<Rightarrow> TodoState \<Rightarrow> TodoState" where
  "deleteCommand tz now ident state = runEffects tz now (deleteTask now ident state)"

section \<open>The task form (TaskForm.tsx)\<close>

record TaskFormData =
  f_title :: string
  f_description :: string
  f_priority :: Priority
  f_dueDate :: string
  f_dueTime :: string

text \<open>The keys \<^verbatim>\<open>validateForm\<close> writes into its \<^verbatim>\<open>Partial<TaskFormData>\<close> of messages.\<close>

record FormErrors =
  e_title :: "string option"
  e_dueDate :: "string option"

text \<open>
  \<^verbatim>\<open>String.prototype.trim\<close> on strings of one-byte code units: the white space and line
  terminators below 256 are TAB, LF, VT, FF, CR, SP and NBSP.
\<close>

definition isWhiteSpace :: "char \<Rightarrow> bool" where
  "isWhiteSpace c = (of_char c \<in> set [9, 10, 11, 12, 13, 32, 160 :: nat])"

definition trim :: "string \<Rightarrow> string" where
  "trim s = rev (dropWhile isWhiteSpace (rev (dropWhile isWhiteSpace s)))"

text \<open>
  \<^verbatim>\<open>validateForm\<close>. \<open>parseDate\<close> stands for the host's \<^verbatim>\<open>new Date(string)\<close> on the value
  of the form's date and time inputs, read as local time.
\<close>

definition validateForm :: "(string \<Rightarrow> instant) \<Rightarrow> instant \<Rightarrow> TaskFormData \<Rightarrow> FormErrors" where
  "validateForm parseDate now formData =
     \<lparr>e_title = (if trim (f_title formData) = [] then Some ''Title is required'' else None),
      e_dueDate =
        (if f_dueDate formData \<noteq> [] \<and> f_dueTime formData \<noteq> [] then
           (if parseDate (f_dueDate formData @ ''T'' @ f_dueTime formData) < now
            then Some ''Due date cannot be in the past'' else None)
         else None)\<rparr>"

definition noErrors :: "FormErrors \<Rightarrow> bool" where
  "noErrors errs = (e_title errs = None \<and> e_dueDate errs = None)"

definition formDueDate :: "(string \<Rightarrow> instant) \<Rightarrow> TaskFormData \<Rightarrow> instant option" where
  "formDueDate parseDate formData =
     (if f_dueDate formData \<noteq> [] \<and> f_dueTime formData \<noteq> []
      then Some (parseDate (f_dueDate formData @ ''T'' @ f_dueTime formData))
      else if f_dueDate formData \<noteq> []
      then Some (parseDate (f_dueDate formData @ ''T23:59''))
      else None)"

text \<open>
  \<^verbatim>\<open>handleSubmit\<close>: the form's error messages and the store's state after the handler.
  \<open>edited\<close> is the \<^verbatim>\<open>task\<close> prop (the task being edited, if any); \<open>nowV\<close>, \<open>nowC\<close> and \<open>nowU\<close>
  are the clock readings of the validation, of \<^verbatim>\<open>createdAt\<close> and of \<^verbatim>\<open>updatedAt\<close>.
\<close>

definition handleSubmit ::
  "(string \<Rightarrow> instant) \<Rightarrow> string \<Rightarrow> instant \<Rightarrow> instant \<Rightarrow> instant \<Rightarrow>
   Task option \<Rightarrow> TaskFormData \<Rightarrow> TodoState \<Rightarrow> FormErrors \<times> TodoState" where
  "handleSubmit parseDate uuid nowV nowC nowU edited formData state =
     (let errs = validateForm parseDate nowV formData in
      if \<not> noErrors errs then (errs, state)
      else
        (case edited of
           Some task \<Rightarrow>
             (errs, updateTask nowU (id_task task)
                \<lparr>u_id = None, u_title = Some (trim (f_title formData)),
                 u_description = Some (Some (trim (f_description formData))),
                 u_completed = Some (completed task),
                 u_priority = Some (f_priority formData),
                 u_dueDate = Some (formDueDate parseDate formData),
                 u_createdAt = None, u_updatedAt = None\<rparr> state)
         | None \<Rightarrow>
             (errs, addTask uuid nowC nowU
                \<lparr>td_title = trim (f_title formData),
                 td_description = Some (trim (f_description formData)),
                 td_completed = False,
                 td_priority = f_priority formData,
                 td_dueDate = formDueDate parseDate formData\<rparr> state)))"

section \<open>The reminder timers (useNotifications.ts)\<close>

text \<open>
  A pending timer of the host is the delay it was requested with and the task its
  callback shows. \<open>notificationTimeouts\<close> is the hook's map from task id to timer handle,
  \<open>pendingTimers\<close> the host's timers that are neither fired nor cleared, \<open>nextHandle\<close> the
  handle the next \<^verbatim>\<open>setTimeout\<close> returns.
\<close>

record Timer =
  delay :: int
  forTask :: Task

record Scheduler =
  notificationTimeouts :: "string \<rightharpoonup> nat"
  pendingTimers :: "nat \<rightharpoonup> Timer"
  nextHandle :: nat

definition clearTimeout :: "nat \<Rightarrow> Scheduler \<Rightarrow> Scheduler" where
  "clearTimeout h sch = sch\<lparr>pendingTimers := (pendingTimers sch)(h := None)\<rparr>"

definition setTimeout :: "Timer \<Rightarrow> Scheduler \<Rightarrow> nat \<times> Scheduler" where
  "setTimeout tm sch =
     (nextHandle sch,
      sch\<lparr>pendingTimers := (pendingTimers sch)(nextHandle sch \<mapsto> tm),
          nextHandle := Suc (nextHandle sch)\<rparr>)"

definition scheduleNotification :: "AppSettings \<Rightarrow> instant \<Rightarrow> Task \<Rightarrow> Scheduler \<Rightarrow> Scheduler" where
  "scheduleNotification st now task sch =
     (case dueDate task of
        None \<Rightarrow> sch
      | Some due \<Rightarrow>
          if enabled (notifications st) \<noteq> Some True then sch
          else
            (let reminder = addMinutes due (map_option uminus (reminderTime (notifications st)));
                 sch1 = (case notificationTimeouts sch (id_task task) of
                           None \<Rightarrow> sch
                         | Some existingTimeout \<Rightarrow> clearTimeout existingTimeout sch)
             in if isBefore now reminder then
                  (case reminder of
                     None \<Rightarrow> sch1
                   | Some reminderAt \<Rightarrow>
                       (let timeUntilReminder = reminderAt - now;
                            (h, sch2) = setTimeout \<lparr>delay = timeUntilReminder, forTask = task\<rparr> sch1
                        in sch2\<lparr>notificationTimeouts :=
                                  (notificationTimeouts sch2)(id_task task \<mapsto> h)\<rparr>))
                else sch1))"

text \<open>
  The effect that schedules the reminders: \<^verbatim>\<open>scheduleNotification\<close> for each task that is not
  completed and has a due date, in the order of the list. \<open>clock task\<close> is the clock
  reading inside the call for that task.
\<close>

definition scheduleEffect ::
  "AppSettings \<Rightarrow> (Task \<Rightarrow> instant) \<Rightarrow> Task list \<Rightarrow> Scheduler \<Rightarrow> Scheduler" where
  "scheduleEffect st clock ts sch =
     fold (\<lambda>task. scheduleNotification st (clock task) task)
       (filter (\<lambda>task. \<not> completed task \<and> dueDate task \<noteq> None) ts) sch"

text \<open>The timer that is pending for a task id, if there is one.\<close>

definition armed :: "Scheduler \<Rightarrow> string \<Rightarrow> Timer option" where
  "armed sch ident =
     (case notificationTimeouts sch ident of None \<Rightarrow> None | Some h \<Rightarrow> pendingTimers sch h)"

section \<open>The properties, in the spec's words\<close>

text \<open>A task is due on the calendar day of \<open>now\<close>: it has a due date on that local day.\<close>

definition dueOn :: "int \<Rightarrow> instant \<Rightarrow> Task \<Rightarrow> bool" where
  "dueOn tz now task =
     (case dueDate task of None \<Rightarrow> False | Some d \<Rightarrow> localDay tz d = localDay tz now)"

text \<open>
  The spec's qualifying day, for the day of \<open>now\<close>: at least one task is due on it and
  every task due on it is completed.
\<close>

definition qualifiesToday :: "int \<Rightarrow> instant \<Rightarrow> Task list \<Rightarrow> bool" where
  "qualifiesToday tz now ts =
     ((\<exists>task \<in> set ts. dueOn tz now task) \<and>
      (\<forall>task \<in> set ts. dueOn tz now task \<longrightarrow> completed task))"

text \<open>
  The host hands out each timer handle once: the handles in the hook's map are below
  the next handle, and no two task ids share one.
\<close>

definition handlesFresh :: "Scheduler \<Rightarrow> bool" where
  "handlesFresh sch =
     ((\<forall>i h. notificationTimeouts sch i = Some h \<longrightarrow> h < nextHandle sch) \<and>
      (\<forall>i j h. notificationTimeouts sch i = Some h \<and> notificationTimeouts sch j = Some h
         \<longrightarrow> i = j))"

text \<open>The number of tasks created on the day with key \<open>k\<close>, and of those the completed ones.\<close>

definition createdOn :: "int \<Rightarrow> dayKey \<Rightarrow> Task list \<Rightarrow> nat" where
  "createdOn tz k ts = length (filter (\<lambda>task. formatDay tz (createdAt task) = k) ts)"

definition completedOn :: "int \<Rightarrow> dayKey \<Rightarrow> Task list \<Rightarrow> nat" where
  "completedOn tz k ts =
     length (filter (\<lambda>task. formatDay tz (createdAt task) = k \<and> completed task) ts)"

definition countOf :: "(dayKey \<rightharpoonup> nat) \<Rightarrow> dayKey \<Rightarrow> nat" where
  "countOf m k = (case m k of None \<Rightarrow> 0 | Some n \<Rightarrow> n)"

text \<open>
  Successive runs of the streak effect: each run reads the streak record the run before
  it stored, at its own clock reading and task list.
\<close>

fun recomputeStreaks :: "int \<Rightarrow> (instant \<times> Task list) list \<Rightarrow> StreakInfo \<Rightarrow> StreakInfo" where
  "recomputeStreaks tz [] sk = sk"
| "recomputeStreaks tz ((now, ts) # runs) sk =
     recomputeStreaks tz runs (calculateStreak tz now ts sk)"

section \<open>Concrete inputs\<close>

text \<open>
  Day 20000 is 2024-10-04, and \<open>noon\<close> is 12:00 UTC of that day; the zone of the examples
  is UTC (\<open>tz = 0\<close>).
\<close>

definition noon :: instant where
  "noon = 20000 * msPerDay + 12 * 3600000"

definition sampleTask :: "string \<Rightarrow> bool \<Rightarrow> instant option \<Rightarrow> Task" where
  "sampleTask ident done due =
     \<lparr>id_task = ident, title = ''write'', description = None, completed = done,
      priority = Medium, dueDate = due, createdAt = 1000, updatedAt = 1000\<rparr>"

definition sampleData :: "string \<Rightarrow> TaskData" where
  "sampleData t =
     \<lparr>td_title = t, td_description = None, td_completed = False, td_priority = Medium,
      td_dueDate = None\<rparr>"

definition noUpdates :: TaskUpdates where
  "noUpdates =
     \<lparr>u_id = None, u_title = None, u_description = None, u_completed = None,
      u_priority = None, u_dueDate = None, u_createdAt = None, u_updatedAt = None\<rparr>"

text \<open>The store after one task was created with id \<open>a\<close> while the clock read 1000.\<close>

definition oneTaskState :: TodoState where
  "oneTaskState = addTask ''a'' 1000 1000 (sampleData ''write'') initialState"

text \<open>
  A store at rest at noon of day 20000: its one task is completed and due that day, the
  days 19999 and 20000 are recorded, and the streak and the statistics are the ones the
  effects compute from it on that day.
\<close>

definition settledState :: TodoState where
  "settledState =
     \<lparr>tasks = [sampleTask ''a'' True (Some noon)],
      stats = \<lparr>totalTasks = 1, completedTasks = 1, currentStreak = 2, longestStreak = 2,
               dailyCompletion = [0 \<mapsto> 1], weeklyCompletion = Map.empty\<rparr>,
      settings = initialSettings,
      streak = \<lparr>current = 2, longest = 2, lastCompletionDate = Some (20000 * msPerDay),
                daysWithAllTasksCompleted = [19999, 20000]\<rparr>,
      isLoading = False\<rparr>"

text \<open>The recorded qualifying days are the day before yesterday and yesterday.\<close>

definition endingYesterday :: StreakInfo where
  "endingYesterday =
     \<lparr>current = 0, longest = 0, lastCompletionDate = None,
      daysWithAllTasksCompleted = [19998, 19999]\<rparr>"

definition sampleForm :: "string \<Rightarrow> TaskFormData" where
  "sampleForm t =
     \<lparr>f_title = t, f_description = [], f_priority = Medium, f_dueDate = [], f_dueTime = []\<rparr>"

definition noTimers :: Scheduler where
  "noTimers = \<lparr>notificationTimeouts = Map.empty, pendingTimers = Map.empty, nextHandle = 0\<rparr>"

section \<open>Dates\<close>

lemma msPerDay_pos: "0 < msPerDay"
  by (simp add: msPerDay_def)

lemma localDay_startOfDay: "localDay tz (startOfDay tz t) = localDay tz t"
  using msPerDay_pos by (simp add: localDay_def startOfDay_def)

section \<open>Deleting\<close>

lemma filter_absent_id:
  "ident \<notin> id_task ` set ts \<Longrightarrow> filter (\<lambda>task. id_task task \<noteq> ident) ts = ts"
  by (induction ts) auto

text \<open>
  What the effects leave of a state: the task list, the settings and the loading flag
  are kept, the streak is recomputed at the clock reading, and the statistics are those
  of the state with the new streak.
\<close>

lemma runEffects_parts:
  "tasks (runEffects tz now state) = tasks state \<and>
   settings (runEffects tz now state) = settings state \<and>
   isLoading (runEffects tz now state) = isLoading state \<and>
   streak (runEffects tz now state) = calculateStreak tz now (tasks state) (streak state) \<and>
   stats (runEffects tz now state) =
     calculateStats tz (state\<lparr>streak := calculateStreak tz now (tasks state) (streak state)\<rparr>)"
  by (simp add: runEffects_def Let_def calculateStats_def)

text \<open>
  C7, as the code has it. Deleting an id that no task of the list carries raises no
  error, and its reducer step returns the state it was given; the effects then run on
  that state, so the command keeps the task list, the settings and the loading flag and
  replaces the streak and the statistics by the ones recomputed from the unchanged task
  list at the current clock reading. For every state and id, deleting the id a second
  time leaves the task list and the settings that deleting it once left.
\<close>

theorem deleteCommand_absent:
  "(ident \<notin> id_task ` set (tasks state) \<longrightarrow>
      deleteTask now ident state = state \<and>
      deleteCommand tz now ident state = runEffects tz now state \<and>
      tasks (deleteCommand tz now ident state) = tasks state \<and>
      settings (deleteCommand tz now ident state) = settings state \<and>
      isLoading (deleteCommand tz now ident state) = isLoading state \<and>
      streak (deleteCommand tz now ident state) =
        calculateStreak tz now (tasks state) (streak state) \<and>
      stats (deleteCommand tz now ident state) =
        calculateStats tz
          (state\<lparr>streak := calculateStreak tz now (tasks state) (streak state)\<rparr>)) \<and>
   tasks (deleteCommand tz now2 ident (deleteCommand tz now ident state)) =
     tasks (deleteCommand tz now ident state) \<and>
   settings (deleteCommand tz now2 ident (deleteCommand tz now ident state)) =
     settings (deleteCommand tz now ident state)"
proof -
  have step: "deleteTask now ident state = state" if "ident \<notin> id_task ` set (tasks state)"
    using that by (simp add: deleteTask_def filter_absent_id)
  have twice: "tasks (deleteCommand tz now2 ident (deleteCommand tz now ident state)) =
      tasks (deleteCommand tz now ident state)"
    by (simp add: deleteCommand_def runEffects_parts deleteTask_def)
  have kept: "settings (deleteCommand tz now2 ident (deleteCommand tz now ident state)) =
      settings (deleteCommand tz now ident state)"
    by (simp add: deleteCommand_def runEffects_parts deleteTask_def)
  show ?thesis
    using step twice kept by (simp add: deleteCommand_def runEffects_parts)
qed

text \<open>The store at rest is a fixed point of the effects on its own day.\<close>

lemma settled_streak_same_day:
  "calculateStreak 0 noon (tasks settledState) (streak settledState) = streak settledState"
  by code_simp

lemma settled_streak_next_day:
  "current (calculateStreak 0 (noon + msPerDay) (tasks settledState) (streak settledState)) = 0"
  by code_simp

lemma settled_stats: "calculateStats 0 settledState = stats settledState"
  by (simp add: settledState_def calculateStats_def countTask_def sampleTask_def
      formatDay_def localDay_def msPerDay_def)

lemma settled_fixpoint: "runEffects 0 noon settledState = settledState"
proof (rule TodoState.equality)
  show "stats (runEffects 0 noon settledState) = stats settledState"
    using settled_stats by (simp add: runEffects_parts settled_streak_same_day)
qed (simp_all add: runEffects_parts settled_streak_same_day)

theorem deleteCommand_absent_witness:
  "deleteTask (noon + 1000) ''b'' settledState = settledState \<and>
   deleteCommand 0 noon ''b'' settledState = settledState \<and>
   tasks (deleteCommand 0 (noon + 1000) ''a'' settledState) = [] \<and>
   tasks (deleteCommand 0 (noon + 2000) ''a'' (deleteCommand 0 (noon + 1000) ''a'' settledState)) = []"
proof -
  have absent: "''b'' \<notin> id_task ` set (tasks settledState)"
    by (simp add: settledState_def sampleTask_def)
  have gone: "tasks (deleteCommand 0 (noon + 1000) ''a'' settledState) = []"
    by (simp add: deleteCommand_def runEffects_parts deleteTask_def settledState_def
        sampleTask_def)
  show ?thesis
    using absent gone settled_fixpoint
      deleteCommand_absent [of "''b''" settledState "noon + 1000" 0 "noon + 2000"]
      deleteCommand_absent [of "''b''" settledState "noon" 0 "noon + 2000"]
      deleteCommand_absent [of "''a''" settledState "noon + 1000" 0 "noon + 2000"]
    by simp
qed

text \<open>
  C7 as stated fails: the rest of the state is not left as it was. The store is at rest
  at noon of day 20000 with the current streak 2, and no task has the id \<open>b\<close>. Deleting
  \<open>b\<close> at noon of the next day keeps the task list, and the streak effect that follows
  stores the current streak 0, which the statistics copy.
\<close>

theorem deleteCommand_counterexample:
  "map id_task (tasks settledState) = [''a''] \<and>
   runEffects 0 noon settledState = settledState \<and>
   current (streak settledState) = 2 \<and>
   tasks (deleteCommand 0 (noon + msPerDay) ''b'' settledState) = tasks settledState \<and>
   current (streak (deleteCommand 0 (noon + msPerDay) ''b'' settledState)) = 0 \<and>
   currentStreak (stats (deleteCommand 0 (noon + msPerDay) ''b'' settledState)) = 0"
proof -
  have ids: "map id_task (tasks settledState) = [''a'']"
    by (simp add: settledState_def sampleTask_def)
  have step: "deleteTask (noon + msPerDay) ''b'' settledState = settledState"
    by (simp add: deleteTask_def settledState_def sampleTask_def)
  have cur: "current (streak settledState) = 2"
    by (simp add: settledState_def)
  show ?thesis
    using ids cur settled_fixpoint settled_streak_next_day
    by (simp add: deleteCommand_def step runEffects_parts calculateStats_def)
qed

section \<open>Updating\<close>

text \<open>
  C8, as the code has it. An update whose partial fields carry no \<^verbatim>\<open>id\<close> key leaves the
  id of every task as it was, in the same order; an update that carries an \<^verbatim>\<open>id\<close> key gives
  that id to the tasks it updates.
\<close>

theorem updateTask_keeps_id:
  "(u_id updates = None \<longrightarrow>
      map id_task (tasks (updateTask now ident updates state)) = map id_task (tasks state)) \<and>
   (u_id updates = Some v \<longrightarrow>
      map id_task (tasks (updateTask now ident updates state)) =
        map (\<lambda>task. if id_task task = ident then v else id_task task) (tasks state))"
  by (simp add: updateTask_def applyUpdates_def)

theorem updateTask_keeps_id_witness:
  "map id_task (tasks oneTaskState) = [''a''] \<and>
   map id_task (tasks (updateTask 2000 ''a'' (noUpdates\<lparr>u_title := Some ''read''\<rparr>) oneTaskState)) = [''a''] \<and>
   map title (tasks (updateTask 2000 ''a'' (noUpdates\<lparr>u_title := Some ''read''\<rparr>) oneTaskState)) = [''read'']"
  using updateTask_keeps_id [of "noUpdates\<lparr>u_title := Some ''read''\<rparr>" 2000 "''a''" oneTaskState]
  by (simp add: oneTaskState_def initialState_def addTask_def sampleData_def noUpdates_def updateTask_def
      applyUpdates_def)

text \<open>
  C8 as stated fails: \<^verbatim>\<open>Partial<Task>\<close> admits the key \<^verbatim>\<open>id\<close>, and the spread writes it over the
  task's. The task created with id \<open>a\<close> has id \<open>b\<close> after the update.
\<close>

theorem updateTask_id_counterexample:
  "map id_task (tasks oneTaskState) = [''a''] \<and>
   map id_task (tasks (updateTask 2000 ''a'' (noUpdates\<lparr>u_id := Some ''b''\<rparr>) oneTaskState)) = [''b'']"
  by (simp add: oneTaskState_def initialState_def addTask_def sampleData_def noUpdates_def updateTask_def
      applyUpdates_def)

section \<open>Toggling\<close>

text \<open>
  C6, as the code has it. Toggling an id twice gives every task its completed flag
  back. After one toggle the tasks with that id carry the clock reading of the toggle as
  \<^verbatim>\<open>updatedAt\<close> and the others keep theirs; so where the clock reading is later than each
  toggled task's previous \<^verbatim>\<open>updatedAt\<close>, the new one is strictly greater.
\<close>

theorem toggleTask_twice:
  "map completed (tasks (toggleTask now2 ident (toggleTask now1 ident state))) =
     map completed (tasks state) \<and>
   map updatedAt (tasks (toggleTask now ident state)) =
     map (\<lambda>task. if id_task task = ident then now else updatedAt task) (tasks state) \<and>
   (list_all (\<lambda>task. id_task task = ident \<longrightarrow> updatedAt task < now) (tasks state) \<longrightarrow>
    list_all2 (\<lambda>old new. id_task old = ident \<longrightarrow> updatedAt old < updatedAt new)
      (tasks state) (tasks (toggleTask now ident state)))"
proof -
  have twice: "map completed (tasks (toggleTask now2 ident (toggleTask now1 ident state))) =
      map completed (tasks state)"
    by (simp add: toggleTask_def comp_def)
  have stamp: "map updatedAt (tasks (toggleTask now ident state)) =
      map (\<lambda>task. if id_task task = ident then now else updatedAt task) (tasks state)"
    by (simp add: toggleTask_def comp_def)
  have later: "list_all2 (\<lambda>old new. id_task old = ident \<longrightarrow> updatedAt old < updatedAt new)
      (tasks state) (tasks (toggleTask now ident state))"
    if "list_all (\<lambda>task. id_task task = ident \<longrightarrow> updatedAt task < now) (tasks state)"
    using that by (simp add: toggleTask_def list_all2_map2 list_all_iff list_all2_same)
  from twice stamp later show ?thesis by blast
qed

theorem toggleTask_twice_witness:
  "map completed (tasks (toggleTask 3000 ''a'' (toggleTask 2000 ''a'' oneTaskState))) = [False] \<and>
   map completed (tasks (toggleTask 2000 ''a'' oneTaskState)) = [True] \<and>
   map updatedAt (tasks oneTaskState) = [1000] \<and>
   map updatedAt (tasks (toggleTask 2000 ''a'' oneTaskState)) = [2000]"
  using toggleTask_twice [of 3000 "''a''" 2000 oneTaskState 2000]
  by (simp add: oneTaskState_def initialState_def addTask_def sampleData_def toggleTask_def)

text \<open>
  C6 as stated fails: the new \<^verbatim>\<open>updatedAt\<close> is the clock reading, which need not have
  advanced. The task created while the clock read 1000 and toggled while it still reads
  1000 has the same \<^verbatim>\<open>updatedAt\<close> before and after the toggle.
\<close>

theorem toggleTask_updatedAt_counterexample:
  "map updatedAt (tasks oneTaskState) = [1000] \<and>
   map updatedAt (tasks (toggleTask 1000 ''a'' oneTaskState)) = [1000] \<and>
   map completed (tasks (toggleTask 1000 ''a'' oneTaskState)) = [True]"
  by (simp add: oneTaskState_def initialState_def addTask_def sampleData_def toggleTask_def)

section \<open>Settings\<close>

text \<open>
  C10. The settings are merged at the top level only. A payload with a notifications
  record stores exactly that record, so a nested field the record lacks is absent
  afterwards whatever the stored value was; a top-level field the payload lacks keeps
  its value.
\<close>

theorem updateSettings_shallow_merge:
  "(su_notifications p = Some n \<longrightarrow>
      notifications (settings (updateSettings now p state)) = n) \<and>
   (su_theme p = None \<longrightarrow>
      theme (settings (updateSettings now p state)) = theme (settings state)) \<and>
   (su_language p = None \<longrightarrow>
      language (settings (updateSettings now p state)) = language (settings state))"
  by (simp add: updateSettings_def mergeSettings_def)

theorem updateSettings_shallow_merge_witness:
  "soundEnabled (notifications (settings initialState)) = Some True \<and>
   reminderTime (notifications (settings initialState)) = Some 15 \<and>
   notifications (settings (updateSettings 2000
       \<lparr>su_notifications = Some \<lparr>enabled = Some False, soundEnabled = None, reminderTime = None\<rparr>,
        su_theme = None, su_language = None\<rparr> initialState)) =
     \<lparr>enabled = Some False, soundEnabled = None, reminderTime = None\<rparr> \<and>
   theme (settings (updateSettings 2000
       \<lparr>su_notifications = Some \<lparr>enabled = Some False, soundEnabled = None, reminderTime = None\<rparr>,
        su_theme = None, su_language = None\<rparr> initialState)) = System \<and>
   language (settings (updateSettings 2000
       \<lparr>su_notifications = Some \<lparr>enabled = Some False, soundEnabled = None, reminderTime = None\<rparr>,
        su_theme = None, su_language = None\<rparr> initialState)) = ''en''"
  using updateSettings_shallow_merge
    [of "\<lparr>su_notifications = Some \<lparr>enabled = Some False, soundEnabled = None, reminderTime = None\<rparr>,
          su_theme = None, su_language = None\<rparr>"
        "\<lparr>enabled = Some False, soundEnabled = None, reminderTime = None\<rparr>" 2000 initialState]
  by (simp add: initialState_def initialSettings_def)

section \<open>The streak\<close>

lemma todayTasks_startOfDay: "todayTasks tz (startOfDay tz now) ts = filter (dueOn tz now) ts"
  unfolding todayTasks_def
  by (rule filter_cong)
    (simp_all add: dueOn_def isSameDay_def localDay_startOfDay split: option.splits)

lemma allTodayTasksCompleted_iff:
  "allTodayTasksCompleted tz (startOfDay tz now) ts = qualifiesToday tz now ts"
  by (auto simp: allTodayTasksCompleted_def todayTasks_startOfDay qualifiesToday_def
      list_all_iff filter_empty_conv)

lemma set_newDaysWithAllCompleted:
  "set (newDaysWithAllCompleted allDone k days) =
     (if allDone then insert k (set days) else set days - {k})"
  by (auto simp: newDaysWithAllCompleted_def)

text \<open>
  C4. After a recompute the recorded set of qualifying days is the previous set with the
  key of today's calendar day added if at least one task is due today and every task due
  today is completed, and with that key removed otherwise; every other day of the set is
  as it was. So two completed tasks due today put today in the set, a third task due
  today that is not completed takes it out at the next recompute, and a day without a
  due task is never added.
\<close>

theorem today_bucket_replaced:
  "set (daysWithAllTasksCompleted (calculateStreak tz now ts prev)) =
     (if qualifiesToday tz now ts
      then insert (formatDay tz now) (set (daysWithAllTasksCompleted prev))
      else set (daysWithAllTasksCompleted prev) - {formatDay tz now})"
  by (simp add: calculateStreak_def Let_def set_newDaysWithAllCompleted
      allTodayTasksCompleted_iff formatDay_def localDay_startOfDay)

theorem today_bucket_replaced_witness:
  "set (daysWithAllTasksCompleted
      (calculateStreak 0 noon
         [sampleTask ''a'' True (Some noon), sampleTask ''b'' True (Some (noon + 3600000))]
         initialStreak)) = {20000} \<and>
   set (daysWithAllTasksCompleted
      (calculateStreak 0 noon
         [sampleTask ''a'' True (Some noon), sampleTask ''b'' True (Some (noon + 3600000)),
          sampleTask ''c'' False (Some noon)]
         (calculateStreak 0 noon
            [sampleTask ''a'' True (Some noon), sampleTask ''b'' True (Some (noon + 3600000))]
            initialStreak))) = {} \<and>
   set (daysWithAllTasksCompleted (calculateStreak 0 noon [] endingYesterday)) = {19998, 19999}"
  using today_bucket_replaced [of 0 noon
      "[sampleTask ''a'' True (Some noon), sampleTask ''b'' True (Some (noon + 3600000))]"
      initialStreak]
    today_bucket_replaced [of 0 noon
      "[sampleTask ''a'' True (Some noon), sampleTask ''b'' True (Some (noon + 3600000)),
        sampleTask ''c'' False (Some noon)]"
      "calculateStreak 0 noon
         [sampleTask ''a'' True (Some noon), sampleTask ''b'' True (Some (noon + 3600000))]
         initialStreak"]
    today_bucket_replaced [of 0 noon "[]" endingYesterday]
  by (simp add: qualifiesToday_def dueOn_def sampleTask_def noon_def localDay_def
      formatDay_def msPerDay_def initialStreak_def endingYesterday_def)

lemma longest_calculateStreak:
  "longest (calculateStreak tz now ts prev) =
     max (longest prev) (current (calculateStreak tz now ts prev))"
  by (simp add: calculateStreak_def Let_def)

lemma longest_recomputeStreaks: "longest prev \<le> longest (recomputeStreaks tz runs prev)"
proof (induction runs arbitrary: prev)
  case Nil
  show ?case by simp
next
  case (Cons run runs)
  obtain now ts where run: "run = (now, ts)" by (cases run)
  have "longest prev \<le> longest (calculateStreak tz now ts prev)"
    by (simp add: longest_calculateStreak)
  also have "\<dots> \<le> longest (recomputeStreaks tz runs (calculateStreak tz now ts prev))"
    by (rule Cons.IH)
  finally show ?case by (simp add: run)
qed

text \<open>
  C3. After a recompute the longest streak is the maximum of the previous longest and the
  current streak just computed; so it is at least the new current streak and at least
  the previous longest, and over any sequence of recomputes, each reading the record the
  one before it stored, it never falls below the value it started with.
\<close>

theorem longest_max_monotone:
  "longest (calculateStreak tz now ts prev) =
     max (longest prev) (current (calculateStreak tz now ts prev)) \<and>
   current (calculateStreak tz now ts prev) \<le> longest (calculateStreak tz now ts prev) \<and>
   longest prev \<le> longest (calculateStreak tz now ts prev) \<and>
   longest prev \<le> longest (recomputeStreaks tz runs prev)"
  by (simp add: longest_calculateStreak longest_recomputeStreaks)

text \<open>
  The walk of \<^verbatim>\<open>calculateStreak\<close> expects today's key first. In a zone at or east of UTC,
  a recorded set that lacks today's key therefore gives the current streak 0, whatever
  run of days ends yesterday.
\<close>

lemma localDay_dateOfKey: "0 \<le> tz \<Longrightarrow> tz < msPerDay \<Longrightarrow> localDay tz (dateOfKey k) = k"
  by (simp add: localDay_def dateOfKey_def msPerDay_def)

lemma currentStreakOf_without_today:
  assumes "0 \<le> tz" "tz < msPerDay" "localDay tz now \<notin> set days"
  shows "currentStreakOf tz (startOfDay tz now) (sort days) = 0"
proof (cases "sort days = []")
  case True
  then show ?thesis by (simp add: currentStreakOf_def)
next
  case False
  then obtain ks k where sorted_days: "sort days = ks @ [k]"
    by (cases "sort days" rule: rev_cases) auto
  have "k \<in> set (sort days)" by (simp add: sorted_days)
  then have "k \<noteq> localDay tz now" using assms(3) by auto
  then have "\<not> isSameDay tz (dateOfKey k) (minusDays (startOfDay tz now) 0)"
    using assms(1,2)
    by (simp add: isSameDay_def localDay_dateOfKey minusDays_def localDay_startOfDay)
  then have "countBack tz (startOfDay tz now) (rev (sort days)) 0 = 0"
    by (simp add: sorted_days)
  then show ?thesis by (simp add: currentStreakOf_def Let_def)
qed

text \<open>
  C1, evaluated on the spec's scenario. The zone is UTC and it is noon of 2024-10-04; the
  recorded qualifying days are 2024-10-02 and 2024-10-03 and no task is due today. The
  claim gives the current streak 2; the recompute returns 0 and keeps both days
  recorded.
\<close>

theorem streak_ending_yesterday_is_zero:
  "current (calculateStreak 0 noon [] endingYesterday) = 0 \<and>
   daysWithAllTasksCompleted (calculateStreak 0 noon [] endingYesterday) = [19998, 19999]"
  by (simp add: calculateStreak_def Let_def endingYesterday_def noon_def msPerDay_def
      startOfDay_def localDay_def formatDay_def allTodayTasksCompleted_def todayTasks_def
      newDaysWithAllCompleted_def currentStreakOf_def dateOfKey_def isSameDay_def
      minusDays_def)

text \<open>
  The second half of the scenario: a completed task due today makes today qualify, and in
  the zone UTC the three consecutive days give the current streak 3 and the longest
  streak 3. Five hours west of UTC the same input gives 0: the keys are read back as
  midnight UTC, which is the evening before in that zone.
\<close>

lemma streak_ending_today_is_three:
  "current (calculateStreak 0 noon [sampleTask ''a'' True (Some noon)] endingYesterday) = 3 \<and>
   longest (calculateStreak 0 noon [sampleTask ''a'' True (Some noon)] endingYesterday) = 3"
  by (simp add: calculateStreak_def Let_def endingYesterday_def noon_def msPerDay_def
      startOfDay_def localDay_def formatDay_def allTodayTasksCompleted_def todayTasks_def
      newDaysWithAllCompleted_def currentStreakOf_def dateOfKey_def isSameDay_def
      minusDays_def sampleTask_def)

lemma streak_west_of_utc_is_zero:
  "daysWithAllTasksCompleted
     (calculateStreak (- 5 * 3600000) noon [sampleTask ''a'' True (Some noon)] endingYesterday) =
     [19998, 19999, 20000] \<and>
   current
     (calculateStreak (- 5 * 3600000) noon [sampleTask ''a'' True (Some noon)] endingYesterday) = 0"
  by (simp add: calculateStreak_def Let_def endingYesterday_def noon_def msPerDay_def
      startOfDay_def localDay_def formatDay_def allTodayTasksCompleted_def todayTasks_def
      newDaysWithAllCompleted_def currentStreakOf_def dateOfKey_def isSameDay_def
      minusDays_def sampleTask_def)

section \<open>Statistics\<close>

lemma countTask_apply:
  "countTask tz task m k =
     (if k = formatDay tz (createdAt task)
      then Some (countOf m k + (if completed task then 1 else 0)) else m k)"
  by (simp add: countTask_def Let_def countOf_def split: option.splits)

lemma countOf_countTask:
  "countOf (countTask tz task m) k =
     countOf m k + (if k = formatDay tz (createdAt task) \<and> completed task then 1 else 0)"
  by (simp add: countOf_def countTask_apply)

lemma fold_countTask:
  "fold (countTask tz) ts m k =
     (if createdOn tz k ts > 0 then Some (countOf m k + completedOn tz k ts) else m k)"
proof (induction ts arbitrary: m)
  case Nil
  show ?case by (simp add: createdOn_def)
next
  case (Cons task ts)
  have "fold (countTask tz) (task # ts) m k = fold (countTask tz) ts (countTask tz task m) k"
    by simp
  also have "\<dots> = (if createdOn tz k ts > 0
                     then Some (countOf (countTask tz task m) k + completedOn tz k ts)
                     else countTask tz task m k)"
    by (rule Cons.IH)
  also have "\<dots> = (if createdOn tz k (task # ts) > 0
                     then Some (countOf m k + completedOn tz k (task # ts)) else m k)"
    unfolding countOf_countTask countTask_apply
    by (auto simp: createdOn_def completedOn_def filter_empty_conv)
  finally show ?case .
qed

text \<open>
  C9, as the code has it. The recomputed statistics hold the number of tasks, the number
  of completed tasks, a per-day map that has a key for each calendar day on which a task
  was created and gives the number of completed tasks among those created on that day,
  and a per-week map that is empty.
\<close>

theorem calculateStats_counts:
  "totalTasks (calculateStats tz state) = length (tasks state) \<and>
   completedTasks (calculateStats tz state) = length (filter completed (tasks state)) \<and>
   dailyCompletion (calculateStats tz state) k =
     (if createdOn tz k (tasks state) > 0 then Some (completedOn tz k (tasks state)) else None) \<and>
   weeklyCompletion (calculateStats tz state) = Map.empty"
  by (simp add: calculateStats_def fold_countTask countOf_def)

text \<open>
  C9 as stated fails: one task was created on day 0 and is not completed, and the
  per-day map gives 0 for that day, not the count 1 of tasks created on it; with the
  task completed the per-week map is still empty.
\<close>

theorem dailyCompletion_counterexample:
  "createdOn 0 0 (tasks oneTaskState) = 1 \<and>
   dailyCompletion (calculateStats 0 oneTaskState) 0 = Some 0 \<and>
   completedTasks (calculateStats 0 (toggleTask 2000 ''a'' oneTaskState)) = 1 \<and>
   weeklyCompletion (calculateStats 0 (toggleTask 2000 ''a'' oneTaskState)) = Map.empty"
  by (simp add: calculateStats_def oneTaskState_def initialState_def addTask_def sampleData_def
      toggleTask_def createdOn_def countTask_def formatDay_def localDay_def msPerDay_def)

section \<open>The form\<close>

text \<open>
  C2, as the code has it. The validation is the form's: when the title is empty after
  trimming, the submit handler records the message for the title and returns before it
  calls \<^verbatim>\<open>addTask\<close> or \<^verbatim>\<open>updateTask\<close>, so the store's state (tasks, settings, statistics,
  streak) is the one it had, for a new task and for an edited one.
\<close>

theorem handleSubmit_blank_title:
  "trim (f_title formData) = [] \<Longrightarrow>
   snd (handleSubmit parseDate uuid nowV nowC nowU edited formData state) = state \<and>
   e_title (fst (handleSubmit parseDate uuid nowV nowC nowU edited formData state)) =
     Some ''Title is required''"
  by (simp add: handleSubmit_def Let_def noErrors_def validateForm_def)

theorem handleSubmit_blank_title_witness:
  "trim ''  '' = [] \<and>
   snd (handleSubmit (\<lambda>s. 0) ''b'' 2000 2000 2000 None (sampleForm ''  '') oneTaskState) = oneTaskState \<and>
   snd (handleSubmit (\<lambda>s. 0) ''b'' 2000 2000 2000 (Some (sampleTask ''a'' False None)) (sampleForm [])
      oneTaskState) = oneTaskState \<and>
   map title (tasks (snd (handleSubmit (\<lambda>s. 0) ''b'' 2000 2000 2000 None (sampleForm '' read '')
      oneTaskState))) = [''write'', ''read'']"
  using handleSubmit_blank_title [of "sampleForm ''  ''" "\<lambda>s. 0" "''b''" 2000 2000 2000 None oneTaskState]
    handleSubmit_blank_title [of "sampleForm []" "\<lambda>s. 0" "''b''" 2000 2000 2000
      "Some (sampleTask ''a'' False None)" oneTaskState]
  by (simp add: sampleForm_def trim_def isWhiteSpace_def handleSubmit_def validateForm_def
      noErrors_def formDueDate_def addTask_def oneTaskState_def initialState_def sampleData_def)

text \<open>
  C2 as stated fails: the store's commands do not validate. \<^verbatim>\<open>addTask\<close> with an empty
  title appends a task with that title to the empty list, and \<^verbatim>\<open>updateTask\<close> with an empty
  title overwrites the title of the task.
\<close>

theorem addTask_empty_title_counterexample:
  "tasks initialState = [] \<and>
   map title (tasks (addTask ''a'' 1000 1000 (sampleData []) initialState)) = [[]] \<and>
   map title (tasks (updateTask 2000 ''a'' (noUpdates\<lparr>u_title := Some []\<rparr>) oneTaskState)) = [[]]"
  by (simp add: addTask_def updateTask_def applyUpdates_def noUpdates_def sampleData_def
      oneTaskState_def initialState_def)

section \<open>Reminders\<close>

lemma armed_scheduleNotification:
  "dueDate task = Some due \<Longrightarrow> enabled (notifications st) = Some True \<Longrightarrow>
   reminderTime (notifications st) = Some lead \<Longrightarrow>
   armed (scheduleNotification st now task sch) (id_task task) =
     (if now < due - lead * 60000
      then Some \<lparr>delay = due - lead * 60000 - now, forTask = task\<rparr> else None)"
  by (auto simp: scheduleNotification_def Let_def armed_def addMinutes_def isBefore_def
      setTimeout_def clearTimeout_def split: option.splits)

text \<open>
  C5. For a task with a due date, with notifications enabled and a reminder lead of
  \<open>lead\<close> minutes, the fire time is the due date minus the lead; after
  \<^verbatim>\<open>scheduleNotification\<close> a timer is pending under the task's id exactly when the fire time
  is strictly later than the clock reading, and it was requested with the delay from
  the clock reading to the fire time. A task due in 20 minutes with a lead of 15 minutes
  has a timer of 5 minutes; a task due in 10 minutes has none.
\<close>

theorem scheduleNotification_armed:
  "dueDate task = Some due \<Longrightarrow> enabled (notifications st) = Some True \<Longrightarrow>
   reminderTime (notifications st) = Some lead \<Longrightarrow>
   armed (scheduleNotification st now task sch) (id_task task) =
     (if now < due - lead * 60000
      then Some \<lparr>delay = due - lead * 60000 - now, forTask = task\<rparr> else None)"
  by (rule armed_scheduleNotification)

theorem scheduleNotification_armed_witness:
  "armed (scheduleNotification initialSettings noon
       (sampleTask ''a'' False (Some (noon + 20 * 60000))) noTimers) ''a'' =
     Some \<lparr>delay = 5 * 60000, forTask = sampleTask ''a'' False (Some (noon + 20 * 60000))\<rparr> \<and>
   armed (scheduleNotification initialSettings noon
       (sampleTask ''a'' False (Some (noon + 10 * 60000))) noTimers) ''a'' = None"
  using scheduleNotification_armed [of "sampleTask ''a'' False (Some (noon + 20 * 60000))"
      "noon + 20 * 60000" initialSettings 15 noon noTimers]
    scheduleNotification_armed [of "sampleTask ''a'' False (Some (noon + 10 * 60000))"
      "noon + 10 * 60000" initialSettings 15 noon noTimers]
  by (simp add: sampleTask_def initialSettings_def)

text \<open>
  Calls for other task ids leave the timer of an id alone, since every new timer gets a
  handle of its own.
\<close>

lemma handlesFresh_scheduleNotification:
  "handlesFresh sch \<Longrightarrow> handlesFresh (scheduleNotification st now task sch)"
  unfolding handlesFresh_def scheduleNotification_def Let_def setTimeout_def clearTimeout_def
  by (auto split: option.splits simp: less_Suc_eq)

lemma armed_other_id:
  "handlesFresh sch \<Longrightarrow> id_task task \<noteq> i \<Longrightarrow>
   armed (scheduleNotification st now task sch) i = armed sch i"
  unfolding handlesFresh_def scheduleNotification_def Let_def setTimeout_def clearTimeout_def
    armed_def
  by (auto split: option.splits)

lemma fold_other_ids:
  "handlesFresh sch \<Longrightarrow> i \<notin> id_task ` set ts \<Longrightarrow>
   handlesFresh (fold (\<lambda>task. scheduleNotification st (clock task) task) ts sch) \<and>
   armed (fold (\<lambda>task. scheduleNotification st (clock task) task) ts sch) i = armed sch i"
proof (induction ts arbitrary: sch)
  case Nil
  then show ?case by simp
next
  case (Cons task ts)
  have fresh: "handlesFresh (scheduleNotification st (clock task) task sch)"
    using Cons.prems(1) by (rule handlesFresh_scheduleNotification)
  have "armed (scheduleNotification st (clock task) task sch) i = armed sch i"
    using Cons.prems armed_other_id [of sch task i] by auto
  with Cons.IH [OF fresh] Cons.prems(2) show ?case by simp
qed

lemma handlesFresh_fold:
  "handlesFresh sch \<Longrightarrow>
   handlesFresh (fold (\<lambda>task. scheduleNotification st (clock task) task) ts sch)"
  by (induction ts arbitrary: sch) (simp_all add: handlesFresh_scheduleNotification)

text \<open>
  The same for a pass of the effect over a task list with distinct ids: every task of the
  list that is not completed and has a due date has its timer pending afterwards exactly
  when its fire time is later than the clock reading of its call.
\<close>

lemma scheduleEffect_armed:
  assumes ids: "distinct (map id_task ts)" and fresh: "handlesFresh sch"
    and task: "task \<in> set ts" "\<not> completed task" "dueDate task = Some due"
    and st: "enabled (notifications st) = Some True" "reminderTime (notifications st) = Some lead"
  shows "armed (scheduleEffect st clock ts sch) (id_task task) =
     (if clock task < due - lead * 60000
      then Some \<lparr>delay = due - lead * 60000 - clock task, forTask = task\<rparr> else None)"
proof -
  let ?step = "\<lambda>task. scheduleNotification st (clock task) task"
  let ?due = "filter (\<lambda>task. \<not> completed task \<and> dueDate task \<noteq> None) ts"
  have "task \<in> set ?due" using task by simp
  then obtain before after where split: "?due = before @ task # after"
    by (auto dest: split_list)
  have "distinct (map id_task ?due)" using ids by (rule distinct_map_filter)
  then have "distinct (map id_task (before @ task # after))" by (simp only: split)
  then have others: "id_task task \<notin> id_task ` set before" "id_task task \<notin> id_task ` set after"
    by auto
  let ?sch1 = "fold ?step before sch"
  have fresh1: "handlesFresh ?sch1" using fresh by (rule handlesFresh_fold)
  have fresh2: "handlesFresh (?step task ?sch1)"
    using fresh1 by (rule handlesFresh_scheduleNotification)
  have "armed (scheduleEffect st clock ts sch) (id_task task) =
      armed (fold ?step after (?step task ?sch1)) (id_task task)"
    unfolding scheduleEffect_def split by simp
  also have "\<dots> = armed (?step task ?sch1) (id_task task)"
    using fold_other_ids [OF fresh2 others(2)] by simp
  also have "\<dots> = (if clock task < due - lead * 60000
      then Some \<lparr>delay = due - lead * 60000 - clock task, forTask = task\<rparr> else None)"
    using task(3) st by (rule armed_scheduleNotification)
  finally show ?thesis .
qed

end
